theory Spec2Isabelle
  imports Main
begin

section \<open>Values of the configuration\<close>

text \<open>
  Go errors are strings. A decoded JSON document and the values of an \<^verbatim>\<open>AttributeMap\<close>
  (Go's \<^verbatim>\<open>interface{}\<close>) are values of one type; an \<^verbatim>\<open>AttributeMap\<close> maps keys to them.
\<close>

type_synonym error = string

type_synonym duration = int

datatype jvalue =
    VNull
  | VBool bool
  | VNumber int
  | VString string
  | VList "jvalue list"
  | VObject "(string \<times> jvalue) list"

type_synonym AttributeMap = "string \<rightharpoonup> jvalue"

text \<open>
  The result of converting a resource's attributes: what a registered converter made of
  them, or the attributes themselves when no converter is registered.
\<close>

datatype ConvertedConfig = Converted jvalue | Passthrough AttributeMap

text \<open>
  The structures of the \<^verbatim>\<open>config\<close> package, with the fields that the entry point, the
  package's tests and the specification name.
\<close>

record NetworkConfigData =
  BindAddress :: string
  BindAddressDefaultSet :: bool

record Cloud =
  cloud_ID :: string
  cloud_Secret :: string

record Component =
  comp_Name :: string
  comp_Type :: string
  comp_Model :: string
  comp_Attributes :: AttributeMap
  comp_ConvertedAttributes :: "ConvertedConfig option"

record Service =
  svc_Name :: string
  svc_Type :: string
  svc_Attributes :: AttributeMap
  svc_ConvertedAttributes :: "ConvertedConfig option"

record Config =
  ConfigFilePath :: string
  cfg_Cloud :: "Cloud option"
  Components :: "Component list"
  Services :: "Service list"
  Network :: NetworkConfigData
  cfg_Debug :: bool
  FromCommand :: bool
  cfg_AllowInsecureCreds :: bool

record Arguments =
  AllowInsecureCreds :: bool
  ConfigFile :: string
  CPUProfile :: string
  Debug :: bool
  SharedDir :: string
  Version :: bool
  WebProfile :: bool
  WebRTC :: bool
  revealSensitiveConfigDiffs :: bool

datatype DialOption = WithAllowInsecureWithCredentialsDowngrade | OtherDialOption nat

record Options =
  opt_Pprof :: bool
  opt_SharedDir :: string
  opt_Debug :: bool
  opt_WebRTC :: bool
  opt_SignalingDialOpts :: "DialOption list"
  opt_AuthHandlers :: "string list"

record Diff =
  NetworkEqual :: bool

text \<open>
  Everything the two background loops do to the outside is recorded as an event, in the
  order in which the code does it.
\<close>

datatype event =
    CallReconfigure Config
  | CallStopWeb
  | CallStartWeb Options
  | LogError string error
  | LogInfo string error
  | LogWarn string
  | LogPanic string error
  | Wait duration
  | Cancel
  | CloseChecker

section \<open>The restart checker loop\<close>

text \<open>
  \<^verbatim>\<open>needsRestart\<close> answers with an error, or with \<^verbatim>\<open>mustRestart\<close> and the next interval.
  One iteration of the loop reads two things from its environment: whether
  \<^verbatim>\<open>SelectContextOrWait\<close> returned true (the wait elapsed before the context was done), and
  the answer of \<^verbatim>\<open>needsRestart\<close>.
\<close>

datatype check_reply = CheckErr error | CheckOk bool duration

datatype flow = Continue | Return

record rc_state =
  restartInterval :: duration
  cancelled :: bool
  rc_events :: "event list"

definition restartIteration :: "bool \<times> check_reply \<Rightarrow> rc_state \<Rightarrow> flow \<times> rc_state" where
  "restartIteration tick st =
     (let st1 = st\<lparr>rc_events := rc_events st @ [Wait (restartInterval st)]\<rparr> in
      if \<not> fst tick then (Return, st1)
      else (case snd tick of
              CheckErr err \<Rightarrow>
                (Continue, st1\<lparr>rc_events := rc_events st1 @ [LogInfo ''failed to check restart'' err]\<rparr>)
            | CheckOk mustRestart newRestartInterval \<Rightarrow>
                (let st2 = st1\<lparr>restartInterval := newRestartInterval\<rparr> in
                 if mustRestart
                 then (Return, st2\<lparr>cancelled := True, rc_events := rc_events st2 @ [Cancel]\<rparr>)
                 else (Continue, st2))))"

text \<open>
  The loop over a finite script of environment answers. When the script is used up the loop
  is still waiting, so the flow is \<open>Continue\<close>.
\<close>

fun restartLoop :: "(bool \<times> check_reply) list \<Rightarrow> rc_state \<Rightarrow> flow \<times> rc_state" where
  "restartLoop [] st = (Continue, st)"
| "restartLoop (tick # ticks) st =
     (case restartIteration tick st of
        (Return, st') \<Rightarrow> (Return, st')
      | (Continue, st') \<Rightarrow> restartLoop ticks st')"

text \<open>
  The goroutine around the loop. \<^verbatim>\<open>newRestartChecker\<close> fails or gives the checker; when it
  fails, \<^verbatim>\<open>logger.Panicw\<close> logs and panics, so the \<^verbatim>\<open>cancel\<close> written after it is not
  reached. The loop starts with \<^verbatim>\<open>restartInterval := defaultNeedsRestartCheckInterval\<close>, a
  constant declared in another file and so a parameter here. When the loop returns, the
  deferred \<^verbatim>\<open>restartCheck.close\<close> runs.
\<close>

definition rc_init :: "duration \<Rightarrow> rc_state" where
  "rc_init defaultNeedsRestartCheckInterval =
     \<lparr>restartInterval = defaultNeedsRestartCheckInterval, cancelled = False, rc_events = []\<rparr>"

definition restartCheckerTask ::
  "error option \<Rightarrow> duration \<Rightarrow> (bool \<times> check_reply) list \<Rightarrow> flow \<times> rc_state" where
  "restartCheckerTask newRestartCheckerErr defaultNeedsRestartCheckInterval ticks =
     (case newRestartCheckerErr of
        Some err \<Rightarrow>
          (Return, (rc_init defaultNeedsRestartCheckInterval)
                     \<lparr>rc_events := [LogPanic ''error creating restart checker'' err]\<rparr>)
      | None \<Rightarrow>
          (case restartLoop ticks (rc_init defaultNeedsRestartCheckInterval) of
             (Return, st) \<Rightarrow> (Return, st\<lparr>rc_events := rc_events st @ [CloseChecker]\<rparr>)
           | (Continue, st) \<Rightarrow> (Continue, st)))"

section \<open>The configuration watch loop\<close>

text \<open>
  The collaborators of \<^verbatim>\<open>serveWeb\<close> that live in other packages are parameters: the
  \<^verbatim>\<open>config\<close> package (\<^verbatim>\<open>NewTLSConfig\<close>, \<^verbatim>\<open>ProcessConfig\<close>, \<^verbatim>\<open>DiffConfigs\<close>), the robot
  (\<^verbatim>\<open>Reconfigure\<close>, \<^verbatim>\<open>StopWeb\<close>, \<^verbatim>\<open>StartWeb\<close>, each acting on the robot's state \<open>'r\<close>),
  \<^verbatim>\<open>weboptions.FromConfig\<close> and \<^verbatim>\<open>net.SplitHostPort\<close>. A Go \<^verbatim>\<open>error\<close> result is
  \<open>Some err\<close>, and \<open>None\<close> is \<^verbatim>\<open>nil\<close>.
\<close>

record ('r, 'tls) deps =
  NewTLSConfig :: "Config \<Rightarrow> 'tls"
  ProcessConfig :: "Config \<Rightarrow> 'tls \<Rightarrow> error + Config"
  DiffConfigs :: "Config \<Rightarrow> Config \<Rightarrow> bool \<Rightarrow> error + Diff"
  Reconfigure :: "Config \<Rightarrow> 'r \<Rightarrow> 'r"
  StopWeb :: "'r \<Rightarrow> error option \<times> 'r"
  StartWeb :: "Options \<Rightarrow> 'r \<Rightarrow> error option \<times> 'r"
  FromConfig :: "Config \<Rightarrow> error + Options"
  SplitHostPort :: "string \<Rightarrow> error + (string \<times> string)"

text \<open>\<^verbatim>\<open>createWebOptions\<close>: the events are the warning it may log.\<close>

definition createWebOptions ::
  "('r, 'tls) deps \<Rightarrow> Config \<Rightarrow> Arguments \<Rightarrow> event list \<times> (error + Options)" where
  "createWebOptions D cfg argsParsed =
     (case FromConfig D cfg of
        Inl err \<Rightarrow> ([], Inl err)
      | Inr options0 \<Rightarrow>
          (let options1 = options0\<lparr>opt_Pprof := WebProfile argsParsed,
                                    opt_SharedDir := SharedDir argsParsed,
                                    opt_Debug := (Debug argsParsed \<or> cfg_Debug cfg),
                                    opt_WebRTC := WebRTC argsParsed\<rparr>;
               options =
                 (if cfg_Cloud cfg \<noteq> None \<and> AllowInsecureCreds argsParsed
                  then options1\<lparr>opt_SignalingDialOpts :=
                         opt_SignalingDialOpts options1 @ [WithAllowInsecureWithCredentialsDowngrade]\<rparr>
                  else options1)
           in if length (opt_AuthHandlers options) = 0
              then (case SplitHostPort D (BindAddress (Network cfg)) of
                      Inl err \<Rightarrow> ([], Inl err)
                    | Inr (host, port) \<Rightarrow>
                        (if host = [] \<or> host = ''0.0.0.0'' \<or> host = ''::''
                         then ([LogWarn ''binding to all interfaces without authentication''],
                               Inr options)
                         else ([], Inr options)))
              else ([], Inr options)))"

text \<open>
  The closure \<^verbatim>\<open>processConfig\<close> of \<^verbatim>\<open>serveWeb\<close>. Its \<^verbatim>\<open>cfg\<close> is the configuration
  \<^verbatim>\<open>serveWeb\<close> was started with, not the candidate.
\<close>

definition processConfig ::
  "('r, 'tls) deps \<Rightarrow> Arguments \<Rightarrow> Config \<Rightarrow> Config \<Rightarrow> error + Config" where
  "processConfig D argsParsed cfg inp =
     (case ProcessConfig D inp (NewTLSConfig D cfg) of
        Inl err \<Rightarrow> Inl err
      | Inr out \<Rightarrow> Inr (out\<lparr>cfg_Debug := (Debug argsParsed \<or> cfg_Debug cfg),
                             FromCommand := True,
                             cfg_AllowInsecureCreds := AllowInsecureCreds argsParsed\<rparr>))"

record 'r watch_state =
  oldCfg :: Config
  robot :: 'r
  w_events :: "event list"

text \<open>
  The block under \<^verbatim>\<open>if !diff.NetworkEqual\<close>. The flow is \<open>Continue\<close> where the code says
  \<^verbatim>\<open>continue\<close>, and \<open>Return\<close> where the block runs to its end.
\<close>

definition restartWeb ::
  "('r, 'tls) deps \<Rightarrow> Arguments \<Rightarrow> Config \<Rightarrow> 'r watch_state \<Rightarrow> flow \<times> 'r watch_state" where
  "restartWeb D argsParsed processedConfig st =
     (case StopWeb D (robot st) of
        (Some err, r1) \<Rightarrow>
          (Continue, st\<lparr>robot := r1,
                        w_events := w_events st @
                          [CallStopWeb,
                           LogError ''error stopping web service while reconfiguring'' err]\<rparr>)
      | (None, r1) \<Rightarrow>
          (let st1 = st\<lparr>robot := r1, w_events := w_events st @ [CallStopWeb]\<rparr> in
           case createWebOptions D processedConfig argsParsed of
             (logged, Inl err) \<Rightarrow>
               (Continue, st1\<lparr>w_events := w_events st1 @ logged @
                                  [LogError ''error creating weboptions'' err]\<rparr>)
           | (logged, Inr options) \<Rightarrow>
               (case StartWeb D options (robot st1) of
                  (Some err, r2) \<Rightarrow>
                    (Return, st1\<lparr>robot := r2,
                                  w_events := w_events st1 @ logged @
                                    [CallStartWeb options,
                                     LogError ''error starting web service while reconfiguring'' err]\<rparr>)
                | (None, r2) \<Rightarrow>
                    (Return, st1\<lparr>robot := r2,
                                  w_events := w_events st1 @ logged @ [CallStartWeb options]\<rparr>))))"

text \<open>One pass of the \<^verbatim>\<open>case cfg := <-watcher.Config()\<close> branch.\<close>

definition watchCycle ::
  "('r, 'tls) deps \<Rightarrow> Arguments \<Rightarrow> Config \<Rightarrow> Config \<Rightarrow> 'r watch_state \<Rightarrow> 'r watch_state" where
  "watchCycle D argsParsed cfg0 cfg st =
     (case processConfig D argsParsed cfg0 cfg of
        Inl err \<Rightarrow> st\<lparr>w_events := w_events st @ [LogError ''error processing config'' err]\<rparr>
      | Inr processedConfig \<Rightarrow>
          (let st1 = st\<lparr>robot := Reconfigure D processedConfig (robot st),
                         w_events := w_events st @ [CallReconfigure processedConfig]\<rparr> in
           case DiffConfigs D (oldCfg st1) processedConfig (revealSensitiveConfigDiffs argsParsed) of
             Inl err \<Rightarrow> st1\<lparr>w_events := w_events st1 @ [LogError ''error diffing config'' err]\<rparr>
           | Inr diff \<Rightarrow>
               (if \<not> NetworkEqual diff
                then (case restartWeb D argsParsed processedConfig st1 of
                        (Continue, st2) \<Rightarrow> st2
                      | (Return, st2) \<Rightarrow> st2\<lparr>oldCfg := processedConfig\<rparr>)
                else st1\<lparr>oldCfg := processedConfig\<rparr>)))"

text \<open>
  The loop, over a finite script of what the two \<^verbatim>\<open>select\<close> statements receive: the context
  is done, or the watcher delivers a candidate. With the script used up the loop is blocked
  in \<^verbatim>\<open>select\<close>.
\<close>

datatype watch_input = CtxDone | WatcherConfig Config

fun watchLoop ::
  "('r, 'tls) deps \<Rightarrow> Arguments \<Rightarrow> Config \<Rightarrow> watch_input list \<Rightarrow> 'r watch_state
     \<Rightarrow> flow \<times> 'r watch_state" where
  "watchLoop D argsParsed cfg0 [] st = (Continue, st)"
| "watchLoop D argsParsed cfg0 (CtxDone # inputs) st = (Return, st)"
| "watchLoop D argsParsed cfg0 (WatcherConfig cfg # inputs) st =
     watchLoop D argsParsed cfg0 inputs (watchCycle D argsParsed cfg0 cfg st)"

text \<open>The events one cycle adds to the record.\<close>

definition cycleEvents ::
  "('r, 'tls) deps \<Rightarrow> Arguments \<Rightarrow> Config \<Rightarrow> Config \<Rightarrow> 'r watch_state \<Rightarrow> event list" where
  "cycleEvents D argsParsed cfg0 cfg st =
     drop (length (w_events st)) (w_events (watchCycle D argsParsed cfg0 cfg st))"

section \<open>What the specification asks of a cycle, as predicates on its events\<close>

definition is_reconfigure :: "event \<Rightarrow> bool" where
  "is_reconfigure e = (case e of CallReconfigure c \<Rightarrow> True | _ \<Rightarrow> False)"

definition is_startweb :: "event \<Rightarrow> bool" where
  "is_startweb e = (case e of CallStartWeb options \<Rightarrow> True | _ \<Rightarrow> False)"

definition is_robot_call :: "event \<Rightarrow> bool" where
  "is_robot_call e = (is_reconfigure e \<or> e = CallStopWeb \<or> is_startweb e)"

text \<open>
  The specification's order for a cycle that changes the network settings: the web service
  is stopped, then started, and no resource is applied before that.
\<close>

definition spec_stop_start_before_apply :: "event list \<Rightarrow> bool" where
  "spec_stop_start_before_apply evs =
     (let before_start = takeWhile (\<lambda>e. \<not> is_startweb e) evs in
      list_ex is_startweb evs
      \<and> CallStopWeb \<in> set before_start
      \<and> \<not> list_ex is_reconfigure before_start)"

text \<open>The specification's discarded candidate: no call to the robot at all.\<close>

definition spec_discarded :: "event list \<Rightarrow> bool" where
  "spec_discarded evs = (\<not> list_ex is_robot_call evs)"

section \<open>Concrete configurations and collaborators\<close>

definition cfgA :: Config where
  "cfgA = \<lparr>ConfigFilePath = ''robot.json'', cfg_Cloud = None, Components = [], Services = [],
           Network = \<lparr>BindAddress = ''localhost:8080'', BindAddressDefaultSet = True\<rparr>,
           cfg_Debug = False, FromCommand = True, cfg_AllowInsecureCreds = False\<rparr>"

text \<open>\<open>cfgB\<close> changes the bind address; \<open>cfgC\<close> changes a component only.\<close>

definition cfgB :: Config where
  "cfgB = cfgA\<lparr>Network := \<lparr>BindAddress = ''localhost:9090'', BindAddressDefaultSet = False\<rparr>\<rparr>"

definition cfgC :: Config where
  "cfgC = cfgA\<lparr>Components :=
                  [\<lparr>comp_Name = ''foo'', comp_Type = ''arm'', comp_Model = [],
                    comp_Attributes = [''speed'' \<mapsto> VNumber 5], comp_ConvertedAttributes = None\<rparr>]\<rparr>"

definition args0 :: Arguments where
  "args0 = \<lparr>AllowInsecureCreds = False, ConfigFile = ''robot.json'', CPUProfile = [],
            Debug = False, SharedDir = [], Version = False, WebProfile = False,
            WebRTC = False, revealSensitiveConfigDiffs = False\<rparr>"

definition opts0 :: Options where
  "opts0 = \<lparr>opt_Pprof = False, opt_SharedDir = [], opt_Debug = False, opt_WebRTC = False,
            opt_SignalingDialOpts = [], opt_AuthHandlers = []\<rparr>"

text \<open>
  Collaborators that all succeed: the differ compares the network settings, the robot's
  state counts the calls of \<^verbatim>\<open>Reconfigure\<close>. The others differ from it in the one call that
  fails.
\<close>

definition env_ok :: "(nat, unit) deps" where
  "env_ok = \<lparr>NewTLSConfig = (\<lambda>c. ()),
             ProcessConfig = (\<lambda>c t. Inr c),
             DiffConfigs = (\<lambda>a b reveal. Inr \<lparr>NetworkEqual = (Network a = Network b)\<rparr>),
             Reconfigure = (\<lambda>c r. Suc r),
             StopWeb = (\<lambda>r. (None, r)),
             StartWeb = (\<lambda>options r. (None, r)),
             FromConfig = (\<lambda>c. Inr opts0),
             SplitHostPort = (\<lambda>a. Inr (''localhost'', ''8080''))\<rparr>"

definition env_process_fails :: "(nat, unit) deps" where
  "env_process_fails = env_ok\<lparr>ProcessConfig := (\<lambda>c t. Inl ''invalid'')\<rparr>"

definition env_diff_fails :: "(nat, unit) deps" where
  "env_diff_fails = env_ok\<lparr>DiffConfigs := (\<lambda>a b reveal. Inl ''diff failed'')\<rparr>"

definition env_stop_fails :: "(nat, unit) deps" where
  "env_stop_fails = env_ok\<lparr>StopWeb := (\<lambda>r. (Some ''stop failed'', r))\<rparr>"

definition env_options_fail :: "(nat, unit) deps" where
  "env_options_fail = env_ok\<lparr>FromConfig := (\<lambda>c. Inl ''no options'')\<rparr>"

definition env_start_fails :: "(nat, unit) deps" where
  "env_start_fails = env_ok\<lparr>StartWeb := (\<lambda>options r. (Some ''start failed'', r))\<rparr>"

definition st0 :: "nat watch_state" where
  "st0 = \<lparr>oldCfg = cfgA, robot = 0, w_events = []\<rparr>"

section \<open>The type registry\<close>

text \<open>
  Modelled from the spec: \<^verbatim>\<open>RegisterComponentAttributeMapConverter\<close>,
  \<^verbatim>\<open>RegisterServiceAttributeMapConverter\<close> and the registry they write are not among the
  files at hand; only a test calls them. The registry maps (kind, type name) for components,
  and the type name for services, to a converter and a validator. A registration panics and
  returns nothing in two cases: its last argument is nil, which is the call that the test
  \<^verbatim>\<open>TestFromReaderValidate\<close> expects to panic; or its key is in the registry already, which
  is the specification's duplicate registration.
\<close>

record RegistryEntry =
  entry_converter :: "AttributeMap \<Rightarrow> error + jvalue"
  entry_validator :: "(jvalue \<Rightarrow> error option) option"

record TypeRegistry =
  componentConverters :: "string \<times> string \<rightharpoonup> RegistryEntry"
  serviceConverters :: "string \<rightharpoonup> RegistryEntry"

datatype panic = NilArgument | DuplicateRegistration string

definition emptyRegistry :: TypeRegistry where
  "emptyRegistry = \<lparr>componentConverters = Map.empty, serviceConverters = Map.empty\<rparr>"

definition RegisterComponentAttributeMapConverter ::
  "string \<Rightarrow> string \<Rightarrow> (AttributeMap \<Rightarrow> error + jvalue) \<Rightarrow> (jvalue \<Rightarrow> error option) option
     \<Rightarrow> TypeRegistry \<Rightarrow> panic + TypeRegistry" where
  "RegisterComponentAttributeMapConverter kind typeName converter validator reg =
     (if validator = None then Inl NilArgument
      else if componentConverters reg (kind, typeName) \<noteq> None
      then Inl (DuplicateRegistration typeName)
      else Inr (reg\<lparr>componentConverters := (componentConverters reg)
                  ((kind, typeName) \<mapsto>
                     \<lparr>entry_converter = converter, entry_validator = validator\<rparr>)\<rparr>))"

definition RegisterServiceAttributeMapConverter ::
  "string \<Rightarrow> (AttributeMap \<Rightarrow> error + jvalue) \<Rightarrow> (jvalue \<Rightarrow> error option) option
     \<Rightarrow> TypeRegistry \<Rightarrow> panic + TypeRegistry" where
  "RegisterServiceAttributeMapConverter typeName converter validator reg =
     (if validator = None then Inl NilArgument
      else if serviceConverters reg typeName \<noteq> None
      then Inl (DuplicateRegistration typeName)
      else Inr (reg\<lparr>serviceConverters := (serviceConverters reg)
                  (typeName \<mapsto>
                     \<lparr>entry_converter = converter, entry_validator = validator\<rparr>)\<rparr>))"

text \<open>
  The registrations that the drivers make while the process starts, one call after the
  other. The first panic ends the run, as it ends the process.
\<close>

datatype registration =
    ComponentReg string string "AttributeMap \<Rightarrow> error + jvalue" "(jvalue \<Rightarrow> error option) option"
  | ServiceReg string "AttributeMap \<Rightarrow> error + jvalue" "(jvalue \<Rightarrow> error option) option"

datatype reg_key = ComponentKey string string | ServiceKey string

fun key_of :: "registration \<Rightarrow> reg_key" where
  "key_of (ComponentReg kind typeName converter validator) = ComponentKey kind typeName"
| "key_of (ServiceReg typeName converter validator) = ServiceKey typeName"

fun last_argument_nil :: "registration \<Rightarrow> bool" where
  "last_argument_nil (ComponentReg kind typeName converter validator) = (validator = None)"
| "last_argument_nil (ServiceReg typeName converter validator) = (validator = None)"

fun registered :: "TypeRegistry \<Rightarrow> reg_key \<Rightarrow> bool" where
  "registered reg (ComponentKey kind typeName) = (componentConverters reg (kind, typeName) \<noteq> None)"
| "registered reg (ServiceKey typeName) = (serviceConverters reg typeName \<noteq> None)"

fun register :: "registration \<Rightarrow> TypeRegistry \<Rightarrow> panic + TypeRegistry" where
  "register (ComponentReg kind typeName converter validator) reg =
     RegisterComponentAttributeMapConverter kind typeName converter validator reg"
| "register (ServiceReg typeName converter validator) reg =
     RegisterServiceAttributeMapConverter typeName converter validator reg"

fun registerAll :: "registration list \<Rightarrow> TypeRegistry \<Rightarrow> panic + TypeRegistry" where
  "registerAll [] reg = Inr reg"
| "registerAll (r # rs) reg =
     (case register r reg of
        Inl p \<Rightarrow> Inl p
      | Inr reg' \<Rightarrow> registerAll rs reg')"

text \<open>The two calls of the test, and a registration with a validator that accepts.\<close>

definition test_component_reg :: registration where
  "test_component_reg = ComponentReg ''somecomponent'' ''somemodel'' (\<lambda>attributes. Inr VNull) None"

definition test_service_reg :: registration where
  "test_service_reg = ServiceReg ''someservice'' (\<lambda>attributes. Inr VNull) None"

definition arm_reg :: registration where
  "arm_reg = ComponentReg ''arm'' ''wx250s'' (\<lambda>attributes. Inr VNull) (Some (\<lambda>v. None))"

definition gripper_reg :: registration where
  "gripper_reg = ComponentReg ''gripper'' ''wx250s'' (\<lambda>attributes. Inr VNull) (Some (\<lambda>v. None))"

definition vision_reg :: registration where
  "vision_reg = ServiceReg ''vision'' (\<lambda>attributes. Inr VNull) (Some (\<lambda>v. None))"

text \<open>
  Modelled from the spec: the lookup \<^verbatim>\<open>Convert\<close>, which is not among the files at hand. An
  entry converts the attributes and then, if it has a validator, validates the result.
\<close>

definition runEntry :: "RegistryEntry \<Rightarrow> AttributeMap \<Rightarrow> error + ConvertedConfig" where
  "runEntry entry attrs =
     (case entry_converter entry attrs of
        Inl err \<Rightarrow> Inl err
      | Inr converted \<Rightarrow>
          (case entry_validator entry of
             None \<Rightarrow> Inr (Converted converted)
           | Some validate \<Rightarrow>
               (case validate converted of
                  Some err \<Rightarrow> Inl err
                | None \<Rightarrow> Inr (Converted converted))))"

section \<open>Conversion of attributes into a structure\<close>

text \<open>
  Modelled from the spec: \<^verbatim>\<open>TransformAttributeMapToStruct\<close> is not among the files at hand;
  only its test is. The destination declares fields, each bound to a key and of a kind, and
  at most one residual bucket, which maps strings to strings or is an \<^verbatim>\<open>AttributeMap\<close>. A
  value of the wrong kind for its field is a conversion error that names the field, the
  kind expected and the kind found. Without a bucket the first such error ends the
  conversion. With a bucket the error is reported and the conversion goes on with the other
  fields; then the keys that no field declares go to the bucket, on top of what it holds. A
  bucket of strings takes the strings only (the test expects the number 5 to be dropped).
\<close>

datatype kind = KNull | KBool | KNumber | KString | KList | KObject

fun kind_of :: "jvalue \<Rightarrow> kind" where
  "kind_of VNull = KNull"
| "kind_of (VBool b) = KBool"
| "kind_of (VNumber n) = KNumber"
| "kind_of (VString s) = KString"
| "kind_of (VList vs) = KList"
| "kind_of (VObject kvs) = KObject"

record field =
  field_key :: string
  field_kind :: kind

datatype residual = StringBucket "string \<rightharpoonup> string" | DynamicBucket AttributeMap

record destination =
  dest_fields :: "field list"
  dest_values :: "string \<rightharpoonup> jvalue"
  dest_residual :: "residual option"

datatype ConversionError = ConversionError string kind kind

fun bindFields ::
  "field list \<Rightarrow> AttributeMap \<Rightarrow> (string \<rightharpoonup> jvalue) \<Rightarrow> ConversionError + (string \<rightharpoonup> jvalue)" where
  "bindFields [] attrs vals = Inr vals"
| "bindFields (f # fs) attrs vals =
     (case attrs (field_key f) of
        None \<Rightarrow> bindFields fs attrs vals
      | Some v \<Rightarrow>
          (if kind_of v = field_kind f
           then bindFields fs attrs (vals(field_key f \<mapsto> v))
           else Inl (ConversionError (field_key f) (field_kind f) (kind_of v))))"

definition matched :: "field list \<Rightarrow> string \<Rightarrow> bool" where
  "matched fs k = (k \<in> set (map field_key fs))"

definition unmatched :: "field list \<Rightarrow> AttributeMap \<Rightarrow> AttributeMap" where
  "unmatched fs attrs = (\<lambda>k. if matched fs k then None else attrs k)"

definition only_strings :: "AttributeMap \<Rightarrow> (string \<rightharpoonup> string)" where
  "only_strings m = (\<lambda>k. case m k of Some (VString s) \<Rightarrow> Some s | _ \<Rightarrow> None)"

definition routeResidual :: "residual \<Rightarrow> AttributeMap \<Rightarrow> residual" where
  "routeResidual bucket rest =
     (case bucket of
        StringBucket b \<Rightarrow> StringBucket (b ++ only_strings rest)
      | DynamicBucket b \<Rightarrow> DynamicBucket (b ++ rest))"

fun bindFieldsReporting ::
  "field list \<Rightarrow> AttributeMap \<Rightarrow> (string \<rightharpoonup> jvalue)
     \<Rightarrow> (string \<rightharpoonup> jvalue) \<times> ConversionError list" where
  "bindFieldsReporting [] attrs vals = (vals, [])"
| "bindFieldsReporting (f # fs) attrs vals =
     (case attrs (field_key f) of
        None \<Rightarrow> bindFieldsReporting fs attrs vals
      | Some v \<Rightarrow>
          (if kind_of v = field_kind f
           then bindFieldsReporting fs attrs (vals(field_key f \<mapsto> v))
           else (case bindFieldsReporting fs attrs vals of
                   (vals', errs) \<Rightarrow>
                     (vals', ConversionError (field_key f) (field_kind f) (kind_of v) # errs))))"

text \<open>
  The result: the conversion failed with an error, or it returns the destination together
  with the errors it reported on the way (none, in the test).
\<close>

datatype transform_result = Failed ConversionError | Transformed destination "ConversionError list"

definition TransformAttributeMapToStruct :: "destination \<Rightarrow> AttributeMap \<Rightarrow> transform_result" where
  "TransformAttributeMapToStruct dest attrs =
     (case dest_residual dest of
        None \<Rightarrow>
          (case bindFields (dest_fields dest) attrs (dest_values dest) of
             Inl err \<Rightarrow> Failed err
           | Inr vals \<Rightarrow> Transformed (dest\<lparr>dest_values := vals\<rparr>) [])
      | Some bucket \<Rightarrow>
          (case bindFieldsReporting (dest_fields dest) attrs (dest_values dest) of
             (vals, errs) \<Rightarrow>
               Transformed
                 (dest\<lparr>dest_values := vals,
                       dest_residual :=
                         Some (routeResidual bucket (unmatched (dest_fields dest) attrs))\<rparr>)
                 errs))"

text \<open>The test's attributes and its two destinations, with an empty bucket of each flavour.\<close>

definition test_attrs :: AttributeMap where
  "test_attrs = [''a'' \<mapsto> VString ''1'', ''b'' \<mapsto> VString ''2'', ''c'' \<mapsto> VString ''3'',
                 ''d'' \<mapsto> VString ''4'', ''e'' \<mapsto> VNumber 5]"

definition myType :: destination where
  "myType = \<lparr>dest_fields = [\<lparr>field_key = ''a'', field_kind = KString\<rparr>,
                            \<lparr>field_key = ''b'', field_kind = KString\<rparr>],
             dest_values = Map.empty,
             dest_residual = Some (StringBucket Map.empty)\<rparr>"

definition myExtendedType :: destination where
  "myExtendedType = myType\<lparr>dest_residual := Some (DynamicBucket Map.empty)\<rparr>"

text \<open>The test's attributes with a number where the field \<^verbatim>\<open>a\<close> wants a string.\<close>

definition mismatched_attrs :: AttributeMap where
  "mismatched_attrs = test_attrs(''a'' \<mapsto> VNumber 1)"

section \<open>Reading and validating a configuration\<close>

text \<open>
  Modelled from the spec: \<^verbatim>\<open>FromReader\<close> and the validation it runs are not among the files
  at hand; only their test is. The input is the decoded JSON document (the decoding of the
  text is the standard library's). A missing section is empty. The keys \<^verbatim>\<open>cloud\<close>,
  \<^verbatim>\<open>network\<close>, \<^verbatim>\<open>components\<close>, \<^verbatim>\<open>services\<close>, \<^verbatim>\<open>id\<close>, \<^verbatim>\<open>name\<close>, \<^verbatim>\<open>type\<close> and \<^verbatim>\<open>attributes\<close> are
  the specification's and the test's; \<^verbatim>\<open>secret\<close>, \<^verbatim>\<open>model\<close> and \<^verbatim>\<open>bind_address\<close> are named
  after the fields they fill.
\<close>

definition andThen :: "'e + 'a \<Rightarrow> ('a \<Rightarrow> 'e + 'b) \<Rightarrow> 'e + 'b" where
  "andThen r f = (case r of Inl err \<Rightarrow> Inl err | Inr x \<Rightarrow> f x)"

definition kindName :: "jvalue \<Rightarrow> string" where
  "kindName v =
     (case v of
        VNull \<Rightarrow> ''null'' | VBool b \<Rightarrow> ''bool'' | VNumber n \<Rightarrow> ''number''
      | VString s \<Rightarrow> ''string'' | VList vs \<Rightarrow> ''array'' | VObject kvs \<Rightarrow> ''object'')"

definition unmarshalError :: "jvalue \<Rightarrow> string \<Rightarrow> error" where
  "unmarshalError v fieldName =
     ''json: cannot unmarshal '' @ kindName v @ '' into field '' @ fieldName"

text \<open>The member of an object under a key; of two members with one key the last counts.\<close>

definition member_of :: "(string \<times> jvalue) list \<Rightarrow> string \<Rightarrow> jvalue option" where
  "member_of obj key = map_of (rev obj) key"

definition stringField :: "(string \<times> jvalue) list \<Rightarrow> string \<Rightarrow> error + string" where
  "stringField obj key =
     (case member_of obj key of
        None \<Rightarrow> Inr []
      | Some VNull \<Rightarrow> Inr []
      | Some (VString s) \<Rightarrow> Inr s
      | Some v \<Rightarrow> Inl (unmarshalError v key))"

definition attributesField :: "(string \<times> jvalue) list \<Rightarrow> string \<Rightarrow> error + AttributeMap" where
  "attributesField obj key =
     (case member_of obj key of
        None \<Rightarrow> Inr Map.empty
      | Some VNull \<Rightarrow> Inr Map.empty
      | Some (VObject kvs) \<Rightarrow> Inr (map_of (rev kvs))
      | Some v \<Rightarrow> Inl (unmarshalError v key))"

fun decodeList :: "(jvalue \<Rightarrow> error + 'a) \<Rightarrow> jvalue list \<Rightarrow> error + 'a list" where
  "decodeList dec [] = Inr []"
| "decodeList dec (v # vs) =
     andThen (dec v) (\<lambda>x. andThen (decodeList dec vs) (\<lambda>xs. Inr (x # xs)))"

definition listField ::
  "(jvalue \<Rightarrow> error + 'a) \<Rightarrow> (string \<times> jvalue) list \<Rightarrow> string \<Rightarrow> error + 'a list" where
  "listField dec obj key =
     (case member_of obj key of
        None \<Rightarrow> Inr []
      | Some VNull \<Rightarrow> Inr []
      | Some (VList vs) \<Rightarrow> decodeList dec vs
      | Some v \<Rightarrow> Inl (unmarshalError v key))"

definition decodeCloud :: "(string \<times> jvalue) list \<Rightarrow> error + Cloud option" where
  "decodeCloud obj =
     (case member_of obj ''cloud'' of
        None \<Rightarrow> Inr None
      | Some VNull \<Rightarrow> Inr None
      | Some (VObject c) \<Rightarrow>
          andThen (stringField c ''id'') (\<lambda>i.
          andThen (stringField c ''secret'') (\<lambda>s.
          Inr (Some \<lparr>cloud_ID = i, cloud_Secret = s\<rparr>)))
      | Some v \<Rightarrow> Inl (unmarshalError v ''cloud''))"

definition decodeNetwork :: "(string \<times> jvalue) list \<Rightarrow> error + NetworkConfigData" where
  "decodeNetwork obj =
     (case member_of obj ''network'' of
        None \<Rightarrow> Inr \<lparr>BindAddress = [], BindAddressDefaultSet = False\<rparr>
      | Some VNull \<Rightarrow> Inr \<lparr>BindAddress = [], BindAddressDefaultSet = False\<rparr>
      | Some (VObject n) \<Rightarrow>
          andThen (stringField n ''bind_address'') (\<lambda>a.
          Inr \<lparr>BindAddress = a, BindAddressDefaultSet = False\<rparr>)
      | Some v \<Rightarrow> Inl (unmarshalError v ''network''))"

definition decodeComponent :: "jvalue \<Rightarrow> error + Component" where
  "decodeComponent v =
     (case v of
        VObject c \<Rightarrow>
          andThen (stringField c ''name'') (\<lambda>n.
          andThen (stringField c ''type'') (\<lambda>t.
          andThen (stringField c ''model'') (\<lambda>m.
          andThen (attributesField c ''attributes'') (\<lambda>a.
          Inr \<lparr>comp_Name = n, comp_Type = t, comp_Model = m, comp_Attributes = a,
               comp_ConvertedAttributes = None\<rparr>))))
      | _ \<Rightarrow> Inl (unmarshalError v ''components''))"

definition decodeService :: "jvalue \<Rightarrow> error + Service" where
  "decodeService v =
     (case v of
        VObject c \<Rightarrow>
          andThen (stringField c ''name'') (\<lambda>n.
          andThen (stringField c ''type'') (\<lambda>t.
          andThen (attributesField c ''attributes'') (\<lambda>a.
          Inr \<lparr>svc_Name = n, svc_Type = t, svc_Attributes = a,
               svc_ConvertedAttributes = None\<rparr>)))
      | _ \<Rightarrow> Inl (unmarshalError v ''services''))"

definition unmarshalConfig :: "jvalue \<Rightarrow> error + Config" where
  "unmarshalConfig doc =
     (case doc of
        VObject obj \<Rightarrow>
          andThen (decodeCloud obj) (\<lambda>cloud.
          andThen (listField decodeComponent obj ''components'') (\<lambda>comps.
          andThen (listField decodeService obj ''services'') (\<lambda>svcs.
          andThen (decodeNetwork obj) (\<lambda>net.
          Inr \<lparr>ConfigFilePath = [], cfg_Cloud = cloud, Components = comps, Services = svcs,
               Network = net, cfg_Debug = False, FromCommand = False,
               cfg_AllowInsecureCreds = False\<rparr>))))
      | _ \<Rightarrow> Inl (unmarshalError doc ''Config''))"

text \<open>
  Modelled from the spec: the messages of validation. A missing field is reported as the
  path of the resource, a colon, and the quoted name of the field with \<^verbatim>\<open>is required\<close>; the
  path of the entry at an index of a list is the list's name, a dot and the index.
\<close>

definition dquote :: char where
  "dquote = CHR 0x22"

definition requiredError :: "string \<Rightarrow> string \<Rightarrow> error" where
  "requiredError path fieldName = path @ '': '' @ [dquote] @ fieldName @ [dquote] @ '' is required''"

fun string_of_nat :: "nat \<Rightarrow> string" where
  "string_of_nat n =
     (if n < 10 then [''0123456789'' ! n]
      else string_of_nat (n div 10) @ [''0123456789'' ! (n mod 10)])"

declare string_of_nat.simps [simp del]

definition entryPath :: "string \<Rightarrow> nat \<Rightarrow> string" where
  "entryPath listName idx = listName @ ''.'' @ string_of_nat idx"

text \<open>
  Modelled from the spec: validation. The cloud section, if present, needs an id. Every
  component needs a name. An entry whose type the registry knows has its attributes
  converted and validated, and an error of either is prefixed with the entry's path. The
  first error ends the validation. An unset bind address becomes the default, and the flag
  records that.
\<close>

definition validateCloud :: "Cloud option \<Rightarrow> error option" where
  "validateCloud cloud =
     (case cloud of
        None \<Rightarrow> None
      | Some c \<Rightarrow> if cloud_ID c = [] then Some (requiredError ''cloud'' ''id'') else None)"

definition validateComponent :: "TypeRegistry \<Rightarrow> string \<Rightarrow> Component \<Rightarrow> error + Component" where
  "validateComponent reg path c =
     (if comp_Name c = [] then Inl (requiredError path ''name'')
      else (case componentConverters reg (comp_Type c, comp_Model c) of
              None \<Rightarrow> Inr c
            | Some entry \<Rightarrow>
                (case runEntry entry (comp_Attributes c) of
                   Inl err \<Rightarrow> Inl (path @ '': '' @ err)
                 | Inr converted \<Rightarrow> Inr (c\<lparr>comp_ConvertedAttributes := Some converted\<rparr>))))"

definition validateService :: "TypeRegistry \<Rightarrow> string \<Rightarrow> Service \<Rightarrow> error + Service" where
  "validateService reg path s =
     (case serviceConverters reg (svc_Type s) of
        None \<Rightarrow> Inr s
      | Some entry \<Rightarrow>
          (case runEntry entry (svc_Attributes s) of
             Inl err \<Rightarrow> Inl (path @ '': '' @ err)
           | Inr converted \<Rightarrow> Inr (s\<lparr>svc_ConvertedAttributes := Some converted\<rparr>)))"

fun validateEntries :: "(string \<Rightarrow> 'a \<Rightarrow> error + 'a) \<Rightarrow> string \<Rightarrow> nat \<Rightarrow> 'a list \<Rightarrow> error + 'a list" where
  "validateEntries check listName idx [] = Inr []"
| "validateEntries check listName idx (x # xs) =
     andThen (check (entryPath listName idx) x) (\<lambda>y.
     andThen (validateEntries check listName (Suc idx) xs) (\<lambda>ys. Inr (y # ys)))"

definition defaultBindAddress :: string where
  "defaultBindAddress = ''localhost:8080''"

definition Validate :: "TypeRegistry \<Rightarrow> Config \<Rightarrow> error + Config" where
  "Validate reg cfg =
     (case validateCloud (cfg_Cloud cfg) of
        Some err \<Rightarrow> Inl err
      | None \<Rightarrow>
          andThen (validateEntries (validateComponent reg) ''components'' 0 (Components cfg)) (\<lambda>comps.
          andThen (validateEntries (validateService reg) ''services'' 0 (Services cfg)) (\<lambda>svcs.
          Inr (cfg\<lparr>Components := comps, Services := svcs,
                   Network :=
                     (if BindAddress (Network cfg) = []
                      then \<lparr>BindAddress = defaultBindAddress, BindAddressDefaultSet = True\<rparr>
                      else Network cfg)\<rparr>))))"

definition FromReader :: "TypeRegistry \<Rightarrow> string \<Rightarrow> jvalue \<Rightarrow> error + Config" where
  "FromReader reg originalPath doc =
     andThen (unmarshalConfig doc) (\<lambda>cfg. Validate reg (cfg\<lparr>ConfigFilePath := originalPath\<rparr>))"

text \<open>Whether a text occurs in another, as the test's \<^verbatim>\<open>ShouldContainSubstring\<close> asks.\<close>

fun starts_with :: "string \<Rightarrow> string \<Rightarrow> bool" where
  "starts_with [] s = True"
| "starts_with (p # ps) [] = False"
| "starts_with (p # ps) (c # cs) = (p = c \<and> starts_with ps cs)"

fun contains_substring :: "string \<Rightarrow> string \<Rightarrow> bool" where
  "contains_substring [] sub = (sub = [])"
| "contains_substring (c # cs) sub = (starts_with sub (c # cs) \<or> contains_substring cs sub)"

text \<open>The documents of the test.\<close>

definition doc_empty :: jvalue where
  "doc_empty = VObject []"

definition doc_cloud_without_id :: jvalue where
  "doc_cloud_without_id = VObject [(''cloud'', VObject [])]"

definition doc_component_without_name :: jvalue where
  "doc_component_without_name = VObject [(''components'', VList [VObject []])]"


text \<open>
  A registry in which a driver has registered, for the type \<^verbatim>\<open>arm\<close> with no model, a
  converter that rejects every attribute map.
\<close>

definition rejecting_registry :: TypeRegistry where
  "rejecting_registry =
     \<lparr>componentConverters =
        [(''arm'', []) \<mapsto> \<lparr>entry_converter = (\<lambda>attributes. Inl ''rejected''),
                              entry_validator = Some (\<lambda>v. None)\<rparr>],
      serviceConverters = Map.empty\<rparr>"

section \<open>Properties of the restart checker\<close>

text \<open>Every iteration starts by waiting for the current interval, and events are only added.\<close>

lemma restartIteration_events:
  "\<exists>rest. rc_events (snd (restartIteration tick st)) = rc_events st @ Wait (restartInterval st) # rest"
  by (cases tick; cases "snd tick") (auto simp: restartIteration_def Let_def)

lemma restartLoop_grows:
  "\<exists>rest. rc_events (snd (restartLoop ticks st)) = rc_events st @ rest"
proof (induction ticks arbitrary: st)
  case Nil
  show ?case by simp
next
  case (Cons tick ticks)
  obtain fl st' where it: "restartIteration tick st = (fl, st')"
    by (cases "restartIteration tick st")
  from restartIteration_events [of tick st] it
  obtain r1 where r1: "rc_events st' = rc_events st @ Wait (restartInterval st) # r1"
    by auto
  show ?case
  proof (cases fl)
    case Return
    with it r1 show ?thesis by simp
  next
    case Continue
    from Cons.IH [of st'] obtain r2 where "rc_events (snd (restartLoop ticks st')) = rc_events st' @ r2"
      by blast
    with it r1 Continue show ?thesis by simp
  qed
qed

lemma restartLoop_first_wait:
  "\<exists>rest. rc_events (snd (restartLoop (tick # ticks) st)) =
           rc_events st @ Wait (restartInterval st) # rest"
proof -
  obtain fl st' where it: "restartIteration tick st = (fl, st')"
    by (cases "restartIteration tick st")
  from restartIteration_events [of tick st] it
  obtain r1 where r1: "rc_events st' = rc_events st @ Wait (restartInterval st) # r1"
    by auto
  show ?thesis
  proof (cases fl)
    case Return
    with it r1 show ?thesis by simp
  next
    case Continue
    from restartLoop_grows [of ticks st'] obtain r2
      where "rc_events (snd (restartLoop ticks st')) = rc_events st' @ r2"
      by blast
    with it r1 Continue show ?thesis by simp
  qed
qed

text \<open>
  A run of failed checks leaves the state as it was but for the record of the waits and of
  the log lines, and the loop goes on with the rest of its script.
\<close>

lemma restartLoop_failed_checks:
  "restartLoop (map (\<lambda>e. (True, CheckErr e)) errs @ ticks) st =
     restartLoop ticks
       (st\<lparr>rc_events := rc_events st @
              concat (map (\<lambda>e. [Wait (restartInterval st), LogInfo ''failed to check restart'' e]) errs)\<rparr>)"
proof (induction errs arbitrary: st)
  case Nil
  show ?case by simp
next
  case (Cons e errs)
  have step: "restartIteration (True, CheckErr e) st =
      (Continue, st\<lparr>rc_events := rc_events st @
          [Wait (restartInterval st), LogInfo ''failed to check restart'' e]\<rparr>)"
    by (simp add: restartIteration_def)
  show ?case
    by (simp add: step Cons.IH)
qed

text \<open>
  C8. When \<^verbatim>\<open>needsRestart\<close> returns an error, the iteration waits, logs the error and
  continues: the interval and the flag \<open>cancelled\<close> are the ones before, and nothing but the
  wait and the log line is recorded, so there is no \<open>Cancel\<close>. After any number of failed
  checks in a row, from any state, the loop is still running with the same interval and
  flag, and each wait of the run was for that interval. Started by the goroutine, the loop
  waits for the default interval every time and never cancels.
\<close>

theorem restart_check_error_only_logged:
  "restartIteration (True, CheckErr err) st =
     (Continue,
      \<lparr>restartInterval = restartInterval st, cancelled = cancelled st,
       rc_events = rc_events st @
         [Wait (restartInterval st), LogInfo ''failed to check restart'' err]\<rparr>)
   \<and> restartLoop (map (\<lambda>e. (True, CheckErr e)) errs) st =
     (Continue,
      \<lparr>restartInterval = restartInterval st, cancelled = cancelled st,
       rc_events = rc_events st @
         concat (map (\<lambda>e. [Wait (restartInterval st), LogInfo ''failed to check restart'' e])
                   errs)\<rparr>)
   \<and> restartLoop ((True, CheckErr err) # (True, CheckErr err') # []) st =
     (Continue,
      \<lparr>restartInterval = restartInterval st, cancelled = cancelled st,
       rc_events = rc_events st @
         [Wait (restartInterval st), LogInfo ''failed to check restart'' err,
          Wait (restartInterval st), LogInfo ''failed to check restart'' err']\<rparr>)
   \<and> restartCheckerTask None d0 (map (\<lambda>e. (True, CheckErr e)) errs) =
     (Continue,
      \<lparr>restartInterval = d0, cancelled = False,
       rc_events =
         concat (map (\<lambda>e. [Wait d0, LogInfo ''failed to check restart'' e]) errs)\<rparr>)"
proof -
  have it: "restartIteration (True, CheckErr err) st =
     (Continue,
      \<lparr>restartInterval = restartInterval st, cancelled = cancelled st,
       rc_events = rc_events st @
         [Wait (restartInterval st), LogInfo ''failed to check restart'' err]\<rparr>)"
    by (simp add: restartIteration_def)
  have run: "restartLoop (map (\<lambda>e. (True, CheckErr e)) es) s =
     (Continue,
      \<lparr>restartInterval = restartInterval s, cancelled = cancelled s,
       rc_events = rc_events s @
         concat (map (\<lambda>e. [Wait (restartInterval s), LogInfo ''failed to check restart'' e])
                   es)\<rparr>)" for es s
    using restartLoop_failed_checks [of es "[]" s] by simp
  have two: "restartLoop ((True, CheckErr err) # (True, CheckErr err') # []) st =
     (Continue,
      \<lparr>restartInterval = restartInterval st, cancelled = cancelled st,
       rc_events = rc_events st @
         [Wait (restartInterval st), LogInfo ''failed to check restart'' err,
          Wait (restartInterval st), LogInfo ''failed to check restart'' err']\<rparr>)"
    using run [of "[err, err']" st] by simp
  have task: "restartCheckerTask None d0 (map (\<lambda>e. (True, CheckErr e)) errs) =
     (Continue,
      \<lparr>restartInterval = d0, cancelled = False,
       rc_events =
         concat (map (\<lambda>e. [Wait d0, LogInfo ''failed to check restart'' e]) errs)\<rparr>)"
    by (simp add: restartCheckerTask_def run rc_init_def)
  from it run [of errs st] two task show ?thesis
    by (intro conjI)
qed

text \<open>
  C9. When the check succeeds with \<^verbatim>\<open>mustRestart\<close> true, the iteration calls \<^verbatim>\<open>cancel\<close> and the
  loop returns, whatever the rest of the script is; it does nothing else than wait and
  cancel, and the goroutine ends by closing the checker. When \<^verbatim>\<open>mustRestart\<close> is false, the loop goes on without a cancel, with the interval
  the server sent, and the next iteration waits for that interval.
\<close>

theorem restart_check_success:
  "restartLoop ((True, CheckOk True n) # ticks) st =
     (Return, st\<lparr>rc_events := rc_events st @ [Wait (restartInterval st), Cancel],
                  restartInterval := n, cancelled := True\<rparr>)
   \<and> restartLoop ((True, CheckOk False n) # ticks) st =
     restartLoop ticks (st\<lparr>rc_events := rc_events st @ [Wait (restartInterval st)],
                           restartInterval := n\<rparr>)
   \<and> (\<exists>rest. rc_events (snd (restartLoop ((True, CheckOk False n) # tick # ticks) st)) =
              rc_events st @ [Wait (restartInterval st), Wait n] @ rest)
   \<and> restartCheckerTask None d0 ((True, CheckOk True n) # ticks) =
     (Return, \<lparr>restartInterval = n, cancelled = True,
               rc_events = [Wait d0, Cancel, CloseChecker]\<rparr>)"
proof -
  let ?st' = "st\<lparr>rc_events := rc_events st @ [Wait (restartInterval st)], restartInterval := n\<rparr>"
  have yes: "restartIteration (True, CheckOk True n) st =
     (Return, st\<lparr>rc_events := rc_events st @ [Wait (restartInterval st), Cancel],
                  restartInterval := n, cancelled := True\<rparr>)"
    by (simp add: restartIteration_def)
  have no: "restartIteration (True, CheckOk False n) st = (Continue, ?st')"
    by (simp add: restartIteration_def)
  from restartLoop_first_wait [of tick ticks ?st']
  have "\<exists>rest. rc_events (snd (restartLoop (tick # ticks) ?st')) =
          rc_events st @ [Wait (restartInterval st), Wait n] @ rest"
    by simp
  moreover have "restartCheckerTask None d0 ((True, CheckOk True n) # ticks) =
     (Return, \<lparr>restartInterval = n, cancelled = True,
               rc_events = [Wait d0, Cancel, CloseChecker]\<rparr>)"
    by (simp add: restartCheckerTask_def rc_init_def restartIteration_def)
  ultimately show ?thesis
    using yes no by simp
qed

section \<open>Properties of the configuration watch loop\<close>

lemmas env_defs = env_ok_def env_process_fails_def env_diff_fails_def env_stop_fails_def
  env_options_fail_def env_start_fails_def cfgA_def cfgB_def cfgC_def args0_def opts0_def st0_def

lemmas cycle_defs = cycleEvents_def watchCycle_def restartWeb_def processConfig_def
  createWebOptions_def

lemmas spec_defs = spec_stop_start_before_apply_def spec_discarded_def is_robot_call_def
  is_startweb_def is_reconfigure_def

text \<open>A run of the loop on candidates only is the cycles one after the other.\<close>

lemma watchLoop_cycles:
  "watchLoop D argsParsed cfg0 (map WatcherConfig cfgs) st =
     (Continue, foldl (\<lambda>s c. watchCycle D argsParsed cfg0 c s) st cfgs)"
  by (induction cfgs arbitrary: st) simp_all

text \<open>\<^verbatim>\<open>createWebOptions\<close> calls nothing on the robot: it logs at most one warning.\<close>

lemma createWebOptions_logs:
  "createWebOptions D cfg argsParsed = (logged, res) \<Longrightarrow>
     logged = [] \<or> logged = [LogWarn ''binding to all interfaces without authentication'']"
  by (auto simp: createWebOptions_def Let_def split: sum.splits if_splits prod.splits)

text \<open>The state after a cycle, path by path.\<close>

lemma watchCycle_process_fails:
  assumes "processConfig D argsParsed cfg0 cfg = Inl err"
  shows "watchCycle D argsParsed cfg0 cfg st =
           st\<lparr>w_events := w_events st @ [LogError ''error processing config'' err]\<rparr>"
  using assms by (simp add: watchCycle_def)

lemma watchCycle_diff_fails:
  assumes "processConfig D argsParsed cfg0 cfg = Inr pc"
    and "DiffConfigs D (oldCfg st) pc (revealSensitiveConfigDiffs argsParsed) = Inl err"
  shows "watchCycle D argsParsed cfg0 cfg st =
           st\<lparr>robot := Reconfigure D pc (robot st),
               w_events := w_events st @ [CallReconfigure pc, LogError ''error diffing config'' err]\<rparr>"
  using assms by (simp add: watchCycle_def)

lemma watchCycle_network_equal:
  assumes "processConfig D argsParsed cfg0 cfg = Inr pc"
    and "DiffConfigs D (oldCfg st) pc (revealSensitiveConfigDiffs argsParsed) = Inr d"
    and "NetworkEqual d"
  shows "watchCycle D argsParsed cfg0 cfg st =
           st\<lparr>robot := Reconfigure D pc (robot st),
               w_events := w_events st @ [CallReconfigure pc],
               oldCfg := pc\<rparr>"
  using assms by (simp add: watchCycle_def)

lemma watchCycle_stop_fails:
  assumes "processConfig D argsParsed cfg0 cfg = Inr pc"
    and "DiffConfigs D (oldCfg st) pc (revealSensitiveConfigDiffs argsParsed) = Inr d"
    and "\<not> NetworkEqual d"
    and "StopWeb D (Reconfigure D pc (robot st)) = (Some err, r1)"
  shows "watchCycle D argsParsed cfg0 cfg st =
           st\<lparr>robot := r1,
               w_events := w_events st @
                 [CallReconfigure pc, CallStopWeb,
                  LogError ''error stopping web service while reconfiguring'' err]\<rparr>"
  using assms by (simp add: watchCycle_def restartWeb_def)

lemma watchCycle_options_fail:
  assumes "processConfig D argsParsed cfg0 cfg = Inr pc"
    and "DiffConfigs D (oldCfg st) pc (revealSensitiveConfigDiffs argsParsed) = Inr d"
    and "\<not> NetworkEqual d"
    and "StopWeb D (Reconfigure D pc (robot st)) = (None, r1)"
    and "createWebOptions D pc argsParsed = (logged, Inl err)"
  shows "watchCycle D argsParsed cfg0 cfg st =
           st\<lparr>robot := r1,
               w_events := w_events st @ [CallReconfigure pc, CallStopWeb] @ logged @
                 [LogError ''error creating weboptions'' err]\<rparr>"
  using assms by (simp add: watchCycle_def restartWeb_def)

lemma watchCycle_start:
  assumes "processConfig D argsParsed cfg0 cfg = Inr pc"
    and "DiffConfigs D (oldCfg st) pc (revealSensitiveConfigDiffs argsParsed) = Inr d"
    and "\<not> NetworkEqual d"
    and "StopWeb D (Reconfigure D pc (robot st)) = (None, r1)"
    and "createWebOptions D pc argsParsed = (logged, Inr options)"
    and "StartWeb D options r1 = (res, r2)"
  shows "watchCycle D argsParsed cfg0 cfg st =
           st\<lparr>robot := r2,
               w_events := w_events st @ [CallReconfigure pc, CallStopWeb] @ logged @
                 CallStartWeb options #
                 (case res of
                    None \<Rightarrow> []
                  | Some err \<Rightarrow> [LogError ''error starting web service while reconfiguring'' err]),
               oldCfg := pc\<rparr>"
  using assms by (cases res) (simp_all add: watchCycle_def restartWeb_def)

text \<open>
  C1, as the specification states it, fails. With collaborators that all succeed and a
  candidate that changes the bind address, the cycle calls \<^verbatim>\<open>Reconfigure\<close> first and only then
  \<^verbatim>\<open>StopWeb\<close> and \<^verbatim>\<open>StartWeb\<close>; and when \<^verbatim>\<open>StopWeb\<close> fails, \<^verbatim>\<open>StartWeb\<close> is not called at all.
\<close>

theorem network_change_counterexample:
  "processConfig env_ok args0 cfgA cfgB = Inr cfgB
   \<and> BindAddress (Network cfgB) \<noteq> BindAddress (Network (oldCfg st0))
   \<and> DiffConfigs env_ok (oldCfg st0) cfgB (revealSensitiveConfigDiffs args0) = Inr \<lparr>NetworkEqual = False\<rparr>
   \<and> cycleEvents env_ok args0 cfgA cfgB st0 = [CallReconfigure cfgB, CallStopWeb, CallStartWeb opts0]
   \<and> \<not> spec_stop_start_before_apply (cycleEvents env_ok args0 cfgA cfgB st0)
   \<and> DiffConfigs env_stop_fails (oldCfg st0) cfgB (revealSensitiveConfigDiffs args0) = Inr \<lparr>NetworkEqual = False\<rparr>
   \<and> \<not> list_ex is_startweb (cycleEvents env_stop_fails args0 cfgA cfgB st0)"
  by (simp add: env_defs cycle_defs spec_defs)

text \<open>
  C1, amended. In a cycle whose candidate is processed and diffed without error: when the
  diff reports the network settings changed, the cycle calls \<^verbatim>\<open>Reconfigure\<close> first, then
  \<^verbatim>\<open>StopWeb\<close>, and after that \<^verbatim>\<open>StartWeb\<close> exactly when \<^verbatim>\<open>StopWeb\<close> and the creation of the
  web options succeeded; neither \<^verbatim>\<open>Reconfigure\<close> nor \<^verbatim>\<open>StopWeb\<close> is called again. When the
  diff reports the network settings equal, \<^verbatim>\<open>Reconfigure\<close> is all the cycle does: neither
  \<^verbatim>\<open>StopWeb\<close> nor \<^verbatim>\<open>StartWeb\<close> is called.
\<close>

theorem network_change_restarts_web_after_reconfigure:
  assumes pc: "processConfig D argsParsed cfg0 cfg = Inr pc"
    and d: "DiffConfigs D (oldCfg st) pc (revealSensitiveConfigDiffs argsParsed) = Inr d"
  shows "(NetworkEqual d \<longrightarrow> cycleEvents D argsParsed cfg0 cfg st = [CallReconfigure pc])
       \<and> (\<not> NetworkEqual d \<longrightarrow>
            (\<exists>rest. cycleEvents D argsParsed cfg0 cfg st = CallReconfigure pc # CallStopWeb # rest
               \<and> \<not> list_ex is_reconfigure rest
               \<and> CallStopWeb \<notin> set rest
               \<and> (list_ex is_startweb rest \<longleftrightarrow>
                    fst (StopWeb D (Reconfigure D pc (robot st))) = None
                    \<and> (\<exists>logged options. createWebOptions D pc argsParsed = (logged, Inr options)))))"
proof (intro conjI impI)
  assume "NetworkEqual d"
  from watchCycle_network_equal [OF pc d this]
  show "cycleEvents D argsParsed cfg0 cfg st = [CallReconfigure pc]"
    by (simp add: cycleEvents_def)
next
  assume ne: "\<not> NetworkEqual d"
  let ?P = "\<lambda>rest. cycleEvents D argsParsed cfg0 cfg st = CallReconfigure pc # CallStopWeb # rest
               \<and> \<not> list_ex is_reconfigure rest
               \<and> CallStopWeb \<notin> set rest
               \<and> (list_ex is_startweb rest \<longleftrightarrow>
                    fst (StopWeb D (Reconfigure D pc (robot st))) = None
                    \<and> (\<exists>logged options. createWebOptions D pc argsParsed = (logged, Inr options)))"
  obtain sres r1 where stop: "StopWeb D (Reconfigure D pc (robot st)) = (sres, r1)"
    by (cases "StopWeb D (Reconfigure D pc (robot st))")
  obtain logged ores where opts: "createWebOptions D pc argsParsed = (logged, ores)"
    by (cases "createWebOptions D pc argsParsed")
  from createWebOptions_logs [OF opts]
  have lg: "\<not> list_ex is_reconfigure logged" "CallStopWeb \<notin> set logged" "\<not> list_ex is_startweb logged"
    by (auto simp: is_reconfigure_def is_startweb_def)
  show "\<exists>rest. ?P rest"
  proof (cases sres)
    case (Some err)
    from watchCycle_stop_fails [OF pc d ne stop [unfolded Some]]
    show ?thesis
      using stop Some
      by (intro exI [where x = "[LogError ''error stopping web service while reconfiguring'' err]"])
         (simp add: cycleEvents_def is_reconfigure_def is_startweb_def)
  next
    case None
    note stop' = stop [unfolded None]
    show ?thesis
    proof (cases ores)
      case (Inl err)
      from watchCycle_options_fail [OF pc d ne stop' opts [unfolded Inl]]
      show ?thesis
        using stop' opts Inl lg
        by (intro exI [where x = "logged @ [LogError ''error creating weboptions'' err]"])
           (simp add: cycleEvents_def is_reconfigure_def is_startweb_def)
    next
      case (Inr options)
      obtain res r2 where start: "StartWeb D options r1 = (res, r2)"
        by (cases "StartWeb D options r1")
      let ?tail = "case res of
                     None \<Rightarrow> []
                   | Some err \<Rightarrow> [LogError ''error starting web service while reconfiguring'' err]"
      have tl: "\<not> list_ex is_reconfigure ?tail" "CallStopWeb \<notin> set ?tail"
        by (cases res; simp add: is_reconfigure_def)+
      from watchCycle_start [OF pc d ne stop' opts [unfolded Inr] start]
      show ?thesis
        using stop' opts Inr lg tl
        by (intro exI [where x = "logged @ CallStartWeb options # ?tail"])
           (simp add: cycleEvents_def is_reconfigure_def is_startweb_def)
    qed
  qed
qed

theorem network_change_restarts_web_after_reconfigure_witness:
  "(\<exists>rest. cycleEvents env_ok args0 cfgA cfgB st0 = CallReconfigure cfgB # CallStopWeb # rest
        \<and> \<not> list_ex is_reconfigure rest \<and> CallStopWeb \<notin> set rest \<and> list_ex is_startweb rest)
   \<and> cycleEvents env_ok args0 cfgA cfgC st0 = [CallReconfigure cfgC]"
proof -
  have pB: "processConfig env_ok args0 cfgA cfgB = Inr cfgB"
    by (simp add: env_defs processConfig_def)
  have dB: "DiffConfigs env_ok (oldCfg st0) cfgB (revealSensitiveConfigDiffs args0) =
              Inr \<lparr>NetworkEqual = False\<rparr>"
    by (simp add: env_defs)
  have pC: "processConfig env_ok args0 cfgA cfgC = Inr cfgC"
    by (simp add: env_defs processConfig_def)
  have dC: "DiffConfigs env_ok (oldCfg st0) cfgC (revealSensitiveConfigDiffs args0) =
              Inr \<lparr>NetworkEqual = True\<rparr>"
    by (simp add: env_defs)
  have sB: "fst (StopWeb env_ok (Reconfigure env_ok cfgB (robot st0))) = None"
    by (simp add: env_defs)
  have oB: "createWebOptions env_ok cfgB args0 = ([], Inr opts0)"
    by (simp add: env_defs createWebOptions_def)
  from network_change_restarts_web_after_reconfigure [OF pB dB] sB oB
  have 1: "\<exists>rest. cycleEvents env_ok args0 cfgA cfgB st0 = CallReconfigure cfgB # CallStopWeb # rest
        \<and> \<not> list_ex is_reconfigure rest \<and> CallStopWeb \<notin> set rest \<and> list_ex is_startweb rest"
    by simp
  from network_change_restarts_web_after_reconfigure [OF pC dC]
  have 2: "cycleEvents env_ok args0 cfgA cfgC st0 = [CallReconfigure cfgC]"
    by simp
  from 1 2 show ?thesis by (rule conjI)
qed

text \<open>
  C2, as the specification states it, fails when the diff fails: \<^verbatim>\<open>Reconfigure\<close> is called
  before \<^verbatim>\<open>DiffConfigs\<close>, so the candidate has reached the robot already.
\<close>

theorem failed_diff_counterexample:
  "processConfig env_diff_fails args0 cfgA cfgB = Inr cfgB
   \<and> DiffConfigs env_diff_fails (oldCfg st0) cfgB (revealSensitiveConfigDiffs args0) = Inl ''diff failed''
   \<and> cycleEvents env_diff_fails args0 cfgA cfgB st0 =
        [CallReconfigure cfgB, LogError ''error diffing config'' ''diff failed'']
   \<and> \<not> spec_discarded (cycleEvents env_diff_fails args0 cfgA cfgB st0)
   \<and> robot (watchCycle env_diff_fails args0 cfgA cfgB st0) \<noteq> robot st0"
  by (simp add: env_defs cycle_defs spec_defs)

text \<open>
  C2, amended. When processing the candidate fails, the cycle only logs: no call reaches the
  robot, and the robot and the baseline \<^verbatim>\<open>oldCfg\<close> are what they were. When diffing fails,
  \<^verbatim>\<open>Reconfigure\<close> has been called once with the processed candidate; the cycle then only
  logs, calls neither \<^verbatim>\<open>StopWeb\<close> nor \<^verbatim>\<open>StartWeb\<close>, and leaves the baseline as it was.
\<close>

theorem failed_candidate_keeps_baseline:
  "(processConfig D argsParsed cfg0 cfg = Inl err \<longrightarrow>
      spec_discarded (cycleEvents D argsParsed cfg0 cfg st)
      \<and> robot (watchCycle D argsParsed cfg0 cfg st) = robot st
      \<and> oldCfg (watchCycle D argsParsed cfg0 cfg st) = oldCfg st)
   \<and> (processConfig D argsParsed cfg0 cfg = Inr pc
        \<and> DiffConfigs D (oldCfg st) pc (revealSensitiveConfigDiffs argsParsed) = Inl err \<longrightarrow>
      cycleEvents D argsParsed cfg0 cfg st = [CallReconfigure pc, LogError ''error diffing config'' err]
      \<and> robot (watchCycle D argsParsed cfg0 cfg st) = Reconfigure D pc (robot st)
      \<and> oldCfg (watchCycle D argsParsed cfg0 cfg st) = oldCfg st)"
proof (intro conjI impI)
  assume p: "processConfig D argsParsed cfg0 cfg = Inl err"
  note c = watchCycle_process_fails [OF p, of st]
  show "spec_discarded (cycleEvents D argsParsed cfg0 cfg st)"
    by (simp add: c cycleEvents_def spec_defs)
  show "robot (watchCycle D argsParsed cfg0 cfg st) = robot st"
    by (simp add: c)
  show "oldCfg (watchCycle D argsParsed cfg0 cfg st) = oldCfg st"
    by (simp add: c)
next
  assume "processConfig D argsParsed cfg0 cfg = Inr pc
        \<and> DiffConfigs D (oldCfg st) pc (revealSensitiveConfigDiffs argsParsed) = Inl err"
  then have c: "watchCycle D argsParsed cfg0 cfg st =
           st\<lparr>robot := Reconfigure D pc (robot st),
               w_events := w_events st @ [CallReconfigure pc, LogError ''error diffing config'' err]\<rparr>"
    by (simp add: watchCycle_diff_fails)
  show "cycleEvents D argsParsed cfg0 cfg st = [CallReconfigure pc, LogError ''error diffing config'' err]"
    by (simp add: c cycleEvents_def)
  show "robot (watchCycle D argsParsed cfg0 cfg st) = Reconfigure D pc (robot st)"
    by (simp add: c)
  show "oldCfg (watchCycle D argsParsed cfg0 cfg st) = oldCfg st"
    by (simp add: c)
qed

theorem failed_candidate_keeps_baseline_witness:
  "(spec_discarded (cycleEvents env_process_fails args0 cfgA cfgB st0)
      \<and> robot (watchCycle env_process_fails args0 cfgA cfgB st0) = robot st0
      \<and> oldCfg (watchCycle env_process_fails args0 cfgA cfgB st0) = cfgA)
   \<and> (cycleEvents env_diff_fails args0 cfgA cfgB st0 =
         [CallReconfigure cfgB, LogError ''error diffing config'' ''diff failed'']
      \<and> robot (watchCycle env_diff_fails args0 cfgA cfgB st0) = 1
      \<and> oldCfg (watchCycle env_diff_fails args0 cfgA cfgB st0) = cfgA)"
proof -
  have p1: "processConfig env_process_fails args0 cfgA cfgB = Inl ''invalid''"
    by (simp add: env_defs processConfig_def)
  have p2: "processConfig env_diff_fails args0 cfgA cfgB = Inr cfgB"
    by (simp add: env_defs processConfig_def)
  have d2: "DiffConfigs env_diff_fails (oldCfg st0) cfgB (revealSensitiveConfigDiffs args0) =
              Inl ''diff failed''"
    by (simp add: env_defs)
  have r: "robot st0 = 0" "oldCfg st0 = cfgA" "Reconfigure env_diff_fails cfgB 0 = 1"
    by (simp_all add: env_defs)
  from failed_candidate_keeps_baseline
         [of env_process_fails args0 cfgA cfgB "''invalid''" st0 cfgB] p1
  have 1: "spec_discarded (cycleEvents env_process_fails args0 cfgA cfgB st0)
      \<and> robot (watchCycle env_process_fails args0 cfgA cfgB st0) = robot st0
      \<and> oldCfg (watchCycle env_process_fails args0 cfgA cfgB st0) = cfgA"
    by (simp add: r)
  from failed_candidate_keeps_baseline
         [of env_diff_fails args0 cfgA cfgB "''diff failed''" st0 cfgB] p2 d2
  have 2: "cycleEvents env_diff_fails args0 cfgA cfgB st0 =
         [CallReconfigure cfgB, LogError ''error diffing config'' ''diff failed'']
      \<and> robot (watchCycle env_diff_fails args0 cfgA cfgB st0) = 1
      \<and> oldCfg (watchCycle env_diff_fails args0 cfgA cfgB st0) = cfgA"
    by (simp add: r)
  from 1 2 show ?thesis by (rule conjI)
qed

text \<open>
  C10. In a cycle whose diff reports the network settings changed: when \<^verbatim>\<open>StopWeb\<close> fails, or
  when the creation of the web options fails, the baseline \<^verbatim>\<open>oldCfg\<close> keeps its value; when
  \<^verbatim>\<open>StartWeb\<close> fails, the processed candidate is the new baseline all the same.
\<close>

theorem baseline_update_on_web_errors:
  assumes pc: "processConfig D argsParsed cfg0 cfg = Inr pc"
    and d: "DiffConfigs D (oldCfg st) pc (revealSensitiveConfigDiffs argsParsed) = Inr d"
    and ne: "\<not> NetworkEqual d"
  shows "(StopWeb D (Reconfigure D pc (robot st)) = (Some err, r1) \<longrightarrow>
            oldCfg (watchCycle D argsParsed cfg0 cfg st) = oldCfg st)
       \<and> (StopWeb D (Reconfigure D pc (robot st)) = (None, r1)
            \<and> createWebOptions D pc argsParsed = (logged, Inl err) \<longrightarrow>
            oldCfg (watchCycle D argsParsed cfg0 cfg st) = oldCfg st)
       \<and> (StopWeb D (Reconfigure D pc (robot st)) = (None, r1)
            \<and> createWebOptions D pc argsParsed = (logged, Inr options)
            \<and> StartWeb D options r1 = (Some err, r2) \<longrightarrow>
            oldCfg (watchCycle D argsParsed cfg0 cfg st) = pc)"
proof (intro conjI impI)
  assume "StopWeb D (Reconfigure D pc (robot st)) = (Some err, r1)"
  from watchCycle_stop_fails [OF pc d ne this]
  show "oldCfg (watchCycle D argsParsed cfg0 cfg st) = oldCfg st"
    by simp
next
  assume a: "StopWeb D (Reconfigure D pc (robot st)) = (None, r1)
            \<and> createWebOptions D pc argsParsed = (logged, Inl err)"
  from watchCycle_options_fail [OF pc d ne conjunct1 [OF a] conjunct2 [OF a]]
  show "oldCfg (watchCycle D argsParsed cfg0 cfg st) = oldCfg st"
    by simp
next
  assume a: "StopWeb D (Reconfigure D pc (robot st)) = (None, r1)
            \<and> createWebOptions D pc argsParsed = (logged, Inr options)
            \<and> StartWeb D options r1 = (Some err, r2)"
  then have s: "StopWeb D (Reconfigure D pc (robot st)) = (None, r1)"
    and c: "createWebOptions D pc argsParsed = (logged, Inr options)"
    and w: "StartWeb D options r1 = (Some err, r2)"
    by simp_all
  from watchCycle_start [OF pc d ne s c w]
  show "oldCfg (watchCycle D argsParsed cfg0 cfg st) = pc"
    by simp
qed

theorem baseline_update_on_web_errors_witness:
  "oldCfg (watchCycle env_stop_fails args0 cfgA cfgB st0) = cfgA
   \<and> oldCfg (watchCycle env_options_fail args0 cfgA cfgB st0) = cfgA
   \<and> oldCfg (watchCycle env_start_fails args0 cfgA cfgB st0) = cfgB
   \<and> cfgB \<noteq> cfgA"
proof -
  have p: "processConfig env_stop_fails args0 cfgA cfgB = Inr cfgB"
    "processConfig env_options_fail args0 cfgA cfgB = Inr cfgB"
    "processConfig env_start_fails args0 cfgA cfgB = Inr cfgB"
    by (simp_all add: env_defs processConfig_def)
  have d: "DiffConfigs env_stop_fails (oldCfg st0) cfgB (revealSensitiveConfigDiffs args0) =
             Inr \<lparr>NetworkEqual = False\<rparr>"
    "DiffConfigs env_options_fail (oldCfg st0) cfgB (revealSensitiveConfigDiffs args0) =
             Inr \<lparr>NetworkEqual = False\<rparr>"
    "DiffConfigs env_start_fails (oldCfg st0) cfgB (revealSensitiveConfigDiffs args0) =
             Inr \<lparr>NetworkEqual = False\<rparr>"
    by (simp_all add: env_defs)
  have ne: "\<not> NetworkEqual \<lparr>NetworkEqual = False\<rparr>"
    by simp
  have s: "StopWeb env_stop_fails (Reconfigure env_stop_fails cfgB (robot st0)) = (Some ''stop failed'', 1)"
    "StopWeb env_options_fail (Reconfigure env_options_fail cfgB (robot st0)) = (None, 1)"
    "StopWeb env_start_fails (Reconfigure env_start_fails cfgB (robot st0)) = (None, 1)"
    by (simp_all add: env_defs)
  have c: "createWebOptions env_options_fail cfgB args0 = ([], Inl ''no options'')"
    "createWebOptions env_start_fails cfgB args0 = ([], Inr opts0)"
    by (simp_all add: env_defs createWebOptions_def)
  have w: "StartWeb env_start_fails opts0 1 = (Some ''start failed'', 1)"
    by (simp add: env_defs)
  have o: "oldCfg st0 = cfgA"
    by (simp add: st0_def)
  from baseline_update_on_web_errors [OF p(1) d(1) ne, of "''stop failed''" 1] s(1) o
  have 1: "oldCfg (watchCycle env_stop_fails args0 cfgA cfgB st0) = cfgA"
    by simp
  from baseline_update_on_web_errors [OF p(2) d(2) ne, of "''no options''" 1 "[]"] s(2) c(1) o
  have 2: "oldCfg (watchCycle env_options_fail args0 cfgA cfgB st0) = cfgA"
    by simp
  from baseline_update_on_web_errors [OF p(3) d(3) ne, of "''start failed''" 1 "[]" opts0 1] s(3) c(2) w
  have 3: "oldCfg (watchCycle env_start_fails args0 cfgA cfgB st0) = cfgB"
    by simp
  have 4: "cfgB \<noteq> cfgA"
    by (simp add: cfgA_def cfgB_def)
  from 1 2 3 4 show ?thesis by simp
qed

section \<open>Properties of the type registry and of the conversion\<close>

text \<open>One registration: when it succeeds, and what the registry holds after it.\<close>

lemmas register_defs = RegisterComponentAttributeMapConverter_def
  RegisterServiceAttributeMapConverter_def

lemma register_ok_iff:
  "(\<exists>reg'. register r reg = Inr reg') \<longleftrightarrow> \<not> last_argument_nil r \<and> \<not> registered reg (key_of r)"
  by (cases r) (auto simp: register_defs)

lemma register_registered:
  "register r reg = Inr reg' \<Longrightarrow> registered reg' k \<longleftrightarrow> k = key_of r \<or> registered reg k"
  by (cases r; cases k) (auto simp: register_defs split: if_splits)

text \<open>
  C3, as the specification states it, fails. The two calls of the test register names that the
  empty registry does not hold, and they panic, because their last argument is nil.
\<close>

theorem registration_counterexample:
  "\<not> registered emptyRegistry (ComponentKey ''somecomponent'' ''somemodel'')
   \<and> RegisterComponentAttributeMapConverter ''somecomponent'' ''somemodel''
        (\<lambda>attributes. Inr VNull) None emptyRegistry = Inl NilArgument
   \<and> \<not> registered emptyRegistry (ServiceKey ''someservice'')
   \<and> RegisterServiceAttributeMapConverter ''someservice''
        (\<lambda>attributes. Inr VNull) None emptyRegistry = Inl NilArgument"
  by (simp add: register_defs emptyRegistry_def)

text \<open>
  C3, amended. A run of registrations ends without a panic exactly when no two of them have
  the same key, none has a key that the registry held before, and none has nil as its last
  argument. So a second registration for the same kind and type name panics, a registration
  with nil as last argument panics, and registrations of distinct names that are not yet
  registered, each with a last argument, do not. After such a run the registry holds the
  keys of the run and the keys it held before.
\<close>

theorem registrations_panic_on_duplicate_or_nil:
  "((\<exists>reg'. registerAll rs reg = Inr reg') \<longleftrightarrow>
      distinct (map key_of rs)
      \<and> (\<forall>r \<in> set rs. \<not> last_argument_nil r \<and> \<not> registered reg (key_of r)))
   \<and> (\<forall>reg'. registerAll rs reg = Inr reg' \<longrightarrow>
         (\<forall>k. registered reg' k \<longleftrightarrow> k \<in> set (map key_of rs) \<or> registered reg k))"
proof (induction rs arbitrary: reg)
  case Nil
  show ?case by simp
next
  case (Cons r rs)
  show ?case
  proof (cases "register r reg")
    case (Inl p)
    then have no: "\<not> (\<exists>reg'. register r reg = Inr reg')"
      by simp
    then have "last_argument_nil r \<or> registered reg (key_of r)"
      by (simp add: register_ok_iff)
    with Inl show ?thesis
      by auto
  next
    case (Inr reg1)
    then have ok: "\<not> last_argument_nil r" "\<not> registered reg (key_of r)"
      using register_ok_iff [of r reg] by auto
    note reg1 = register_registered [OF Inr]
    note ih = Cons.IH [of reg1]
    have l: "(\<exists>reg'. registerAll (r # rs) reg = Inr reg') \<longleftrightarrow>
               (\<exists>reg'. registerAll rs reg1 = Inr reg')"
      using Inr by simp
    have m: "(\<forall>x \<in> set rs. \<not> last_argument_nil x \<and> \<not> registered reg1 (key_of x)) \<longleftrightarrow>
               key_of r \<notin> set (map key_of rs)
               \<and> (\<forall>x \<in> set rs. \<not> last_argument_nil x \<and> \<not> registered reg (key_of x))"
      unfolding reg1 by (simp add: image_iff) metis
    have a: "(\<exists>reg'. registerAll (r # rs) reg = Inr reg') \<longleftrightarrow>
               distinct (map key_of (r # rs))
               \<and> (\<forall>x \<in> set (r # rs). \<not> last_argument_nil x \<and> \<not> registered reg (key_of x))"
      unfolding l conjunct1 [OF ih] m using ok by auto
    have b: "\<forall>reg'. registerAll (r # rs) reg = Inr reg' \<longrightarrow>
               (\<forall>k. registered reg' k \<longleftrightarrow> k \<in> set (map key_of (r # rs)) \<or> registered reg k)"
      using Inr ih reg1 by auto
    from a b show ?thesis by (rule conjI)
  qed
qed

theorem registrations_panic_on_duplicate_or_nil_witness:
  "(\<exists>reg'. registerAll [arm_reg, gripper_reg, vision_reg] emptyRegistry = Inr reg'
       \<and> registered reg' (ComponentKey ''arm'' ''wx250s'')
       \<and> registered reg' (ServiceKey ''vision'')
       \<and> \<not> registered reg' (ServiceKey ''someservice''))
   \<and> \<not> (\<exists>reg'. registerAll [arm_reg, arm_reg] emptyRegistry = Inr reg')
   \<and> \<not> (\<exists>reg'. registerAll [arm_reg, vision_reg, vision_reg] emptyRegistry = Inr reg')
   \<and> \<not> (\<exists>reg'. registerAll [test_component_reg] emptyRegistry = Inr reg')
   \<and> \<not> (\<exists>reg'. registerAll [test_service_reg] emptyRegistry = Inr reg')"
proof -
  have e: "\<not> registered emptyRegistry k" for k
    by (cases k) (simp_all add: emptyRegistry_def)
  note t = registrations_panic_on_duplicate_or_nil
  have "\<exists>reg'. registerAll [arm_reg, gripper_reg, vision_reg] emptyRegistry = Inr reg'"
    using conjunct1 [OF t [of "[arm_reg, gripper_reg, vision_reg]" emptyRegistry]]
    by (simp add: e arm_reg_def gripper_reg_def vision_reg_def)
  then obtain reg' where r: "registerAll [arm_reg, gripper_reg, vision_reg] emptyRegistry = Inr reg'"
    by blast
  from conjunct2 [OF t [of "[arm_reg, gripper_reg, vision_reg]" emptyRegistry]] r
  have k: "\<forall>k. registered reg' k \<longleftrightarrow>
             k \<in> set (map key_of [arm_reg, gripper_reg, vision_reg]) \<or> registered emptyRegistry k"
    by blast
  have 1: "registered reg' (ComponentKey ''arm'' ''wx250s'')"
    "registered reg' (ServiceKey ''vision'')"
    "\<not> registered reg' (ServiceKey ''someservice'')"
    unfolding k [rule_format]
    by (simp_all add: emptyRegistry_def arm_reg_def gripper_reg_def vision_reg_def)
  have 2: "\<not> (\<exists>reg'. registerAll [arm_reg, arm_reg] emptyRegistry = Inr reg')"
    using conjunct1 [OF t [of "[arm_reg, arm_reg]" emptyRegistry]]
    by simp
  have 3: "\<not> (\<exists>reg'. registerAll [arm_reg, vision_reg, vision_reg] emptyRegistry = Inr reg')"
    using conjunct1 [OF t [of "[arm_reg, vision_reg, vision_reg]" emptyRegistry]]
    by simp
  have 4: "\<not> (\<exists>reg'. registerAll [test_component_reg] emptyRegistry = Inr reg')"
    using conjunct1 [OF t [of "[test_component_reg]" emptyRegistry]]
    by (simp add: test_component_reg_def)
  have 5: "\<not> (\<exists>reg'. registerAll [test_service_reg] emptyRegistry = Inr reg')"
    using conjunct1 [OF t [of "[test_service_reg]" emptyRegistry]]
    by (simp add: test_service_reg_def)
  from r 1 2 3 4 5 show ?thesis
    by blast
qed

text \<open>No error is reported when every value present is of its field's kind.\<close>

lemma bindFieldsReporting_no_errors:
  "(\<forall>f \<in> set fs. \<forall>v. attrs (field_key f) = Some v \<longrightarrow> kind_of v = field_kind f) \<Longrightarrow>
     snd (bindFieldsReporting fs attrs vals) = []"
  by (induction fs arbitrary: vals) (auto split: option.splits)

text \<open>What a bucket holds under a key after the unmatched keys were added.\<close>

lemma routed_strings:
  "(b ++ only_strings (unmatched fs attrs)) k =
     (if matched fs k then b k
      else case attrs k of Some (VString s) \<Rightarrow> Some s | _ \<Rightarrow> b k)"
  by (auto simp: map_add_def only_strings_def unmatched_def split: option.splits jvalue.splits)

lemma routed_values:
  "(m ++ unmatched fs attrs) k =
     (if matched fs k then m k
      else case attrs k of Some v \<Rightarrow> Some v | None \<Rightarrow> m k)"
  by (auto simp: map_add_def unmatched_def split: option.splits)

text \<open>
  C4. For every \<^verbatim>\<open>AttributeMap\<close> and every destination with a residual bucket the conversion
  returns the destination, also when it reports fields of the wrong kind. A key that a
  declared field matches is not routed: its entry in the bucket is the one from before. A key
  that no field matches is routed into the bucket. A bucket of strings takes an unmatched
  key only when its value is a string and drops every other value (the number 5); a bucket
  that is an \<^verbatim>\<open>AttributeMap\<close> takes every unmatched value as it is, numbers too.
\<close>

theorem unmatched_keys_go_to_residual:
  "(dest_residual dest = Some (StringBucket b) \<longrightarrow>
      (\<exists>dest' errs b'. TransformAttributeMapToStruct dest attrs = Transformed dest' errs
         \<and> dest_residual dest' = Some (StringBucket b')
         \<and> (\<forall>k. b' k =
              (if matched (dest_fields dest) k then b k
               else case attrs k of Some (VString s) \<Rightarrow> Some s | _ \<Rightarrow> b k))))
   \<and> (dest_residual dest = Some (DynamicBucket m) \<longrightarrow>
      (\<exists>dest' errs m'. TransformAttributeMapToStruct dest attrs = Transformed dest' errs
         \<and> dest_residual dest' = Some (DynamicBucket m')
         \<and> (\<forall>k. m' k =
              (if matched (dest_fields dest) k then m k
               else case attrs k of Some v \<Rightarrow> Some v | None \<Rightarrow> m k))))"
proof (intro conjI impI)
  assume r: "dest_residual dest = Some (StringBucket b)"
  obtain vals errs where
    bf: "bindFieldsReporting (dest_fields dest) attrs (dest_values dest) = (vals, errs)"
    by (cases "bindFieldsReporting (dest_fields dest) attrs (dest_values dest)")
  let ?b' = "b ++ only_strings (unmatched (dest_fields dest) attrs)"
  let ?dest' = "dest\<lparr>dest_values := vals, dest_residual := Some (StringBucket ?b')\<rparr>"
  have t: "TransformAttributeMapToStruct dest attrs = Transformed ?dest' errs"
    by (simp add: TransformAttributeMapToStruct_def r bf routeResidual_def)
  have "TransformAttributeMapToStruct dest attrs = Transformed ?dest' errs
         \<and> dest_residual ?dest' = Some (StringBucket ?b')
         \<and> (\<forall>k. ?b' k =
              (if matched (dest_fields dest) k then b k
               else case attrs k of Some (VString s) \<Rightarrow> Some s | _ \<Rightarrow> b k))"
    using t by (simp add: routed_strings)
  then show "\<exists>dest' errs b'. TransformAttributeMapToStruct dest attrs = Transformed dest' errs
         \<and> dest_residual dest' = Some (StringBucket b')
         \<and> (\<forall>k. b' k =
              (if matched (dest_fields dest) k then b k
               else case attrs k of Some (VString s) \<Rightarrow> Some s | _ \<Rightarrow> b k))"
    by (intro exI [where x = "?dest'"] exI [where x = errs] exI [where x = "?b'"])
next
  assume r: "dest_residual dest = Some (DynamicBucket m)"
  obtain vals errs where
    bf: "bindFieldsReporting (dest_fields dest) attrs (dest_values dest) = (vals, errs)"
    by (cases "bindFieldsReporting (dest_fields dest) attrs (dest_values dest)")
  let ?m' = "m ++ unmatched (dest_fields dest) attrs"
  let ?dest' = "dest\<lparr>dest_values := vals, dest_residual := Some (DynamicBucket ?m')\<rparr>"
  have t: "TransformAttributeMapToStruct dest attrs = Transformed ?dest' errs"
    by (simp add: TransformAttributeMapToStruct_def r bf routeResidual_def)
  have "TransformAttributeMapToStruct dest attrs = Transformed ?dest' errs
         \<and> dest_residual ?dest' = Some (DynamicBucket ?m')
         \<and> (\<forall>k. ?m' k =
              (if matched (dest_fields dest) k then m k
               else case attrs k of Some v \<Rightarrow> Some v | None \<Rightarrow> m k))"
    using t by (simp add: routed_values)
  then show "\<exists>dest' errs m'. TransformAttributeMapToStruct dest attrs = Transformed dest' errs
         \<and> dest_residual dest' = Some (DynamicBucket m')
         \<and> (\<forall>k. m' k =
              (if matched (dest_fields dest) k then m k
               else case attrs k of Some v \<Rightarrow> Some v | None \<Rightarrow> m k))"
    by (intro exI [where x = "?dest'"] exI [where x = errs] exI [where x = "?m'"])
qed

lemmas test_defs = myType_def myExtendedType_def test_attrs_def mismatched_attrs_def

theorem unmatched_keys_go_to_residual_witness:
  "(\<exists>d' b'. TransformAttributeMapToStruct myType test_attrs = Transformed d' []
       \<and> dest_residual d' = Some (StringBucket b')
       \<and> b' = [''c'' \<mapsto> ''3'', ''d'' \<mapsto> ''4''])
   \<and> (\<exists>d' m'. TransformAttributeMapToStruct myExtendedType test_attrs = Transformed d' []
       \<and> dest_residual d' = Some (DynamicBucket m')
       \<and> m' = [''c'' \<mapsto> VString ''3'', ''d'' \<mapsto> VString ''4'', ''e'' \<mapsto> VNumber 5])
   \<and> (\<exists>d' b'. TransformAttributeMapToStruct myType mismatched_attrs =
                 Transformed d' [ConversionError ''a'' KString KNumber]
       \<and> dest_residual d' = Some (StringBucket b')
       \<and> b' = [''c'' \<mapsto> ''3'', ''d'' \<mapsto> ''4''])"
proof -
  have r1: "dest_residual myType = Some (StringBucket Map.empty)"
    by (simp add: myType_def)
  have r2: "dest_residual myExtendedType = Some (DynamicBucket Map.empty)"
    by (simp add: myExtendedType_def)
  have e1: "\<exists>d. TransformAttributeMapToStruct myType test_attrs = Transformed d []"
    by (simp add: TransformAttributeMapToStruct_def test_defs)
  have e2: "\<exists>d. TransformAttributeMapToStruct myExtendedType test_attrs = Transformed d []"
    by (simp add: TransformAttributeMapToStruct_def test_defs)
  have e3: "\<exists>d. TransformAttributeMapToStruct myType mismatched_attrs =
                 Transformed d [ConversionError ''a'' KString KNumber]"
    by (simp add: TransformAttributeMapToStruct_def test_defs)
  from unmatched_keys_go_to_residual [of myType Map.empty test_attrs] r1
  obtain d1 errs1 b1 where t1: "TransformAttributeMapToStruct myType test_attrs = Transformed d1 errs1"
    and b1: "dest_residual d1 = Some (StringBucket b1)"
    and k1: "\<forall>k. b1 k =
                (if matched (dest_fields myType) k then None
                 else case test_attrs k of Some (VString s) \<Rightarrow> Some s | _ \<Rightarrow> None)"
    by auto
  have q1: "b1 = [''c'' \<mapsto> ''3'', ''d'' \<mapsto> ''4'']"
    by (rule ext) (simp add: k1 matched_def test_defs)
  from e1 t1 have n1: "errs1 = []"
    by auto
  from unmatched_keys_go_to_residual [of myExtendedType _ test_attrs Map.empty] r2
  obtain d2 errs2 m2 where t2: "TransformAttributeMapToStruct myExtendedType test_attrs = Transformed d2 errs2"
    and b2: "dest_residual d2 = Some (DynamicBucket m2)"
    and k2: "\<forall>k. m2 k =
                (if matched (dest_fields myExtendedType) k then None
                 else case test_attrs k of Some v \<Rightarrow> Some v | None \<Rightarrow> None)"
    by auto
  have q2: "m2 = [''c'' \<mapsto> VString ''3'', ''d'' \<mapsto> VString ''4'', ''e'' \<mapsto> VNumber 5]"
    by (rule ext) (simp add: k2 matched_def test_defs)
  from e2 t2 have n2: "errs2 = []"
    by auto
  from unmatched_keys_go_to_residual [of myType Map.empty mismatched_attrs] r1
  obtain d3 errs3 b3 where t3: "TransformAttributeMapToStruct myType mismatched_attrs = Transformed d3 errs3"
    and b3: "dest_residual d3 = Some (StringBucket b3)"
    and k3: "\<forall>k. b3 k =
                (if matched (dest_fields myType) k then None
                 else case mismatched_attrs k of Some (VString s) \<Rightarrow> Some s | _ \<Rightarrow> None)"
    by auto
  have q3: "b3 = [''c'' \<mapsto> ''3'', ''d'' \<mapsto> ''4'']"
    by (rule ext) (simp add: k3 matched_def test_defs)
  from e3 t3 have n3: "errs3 = [ConversionError ''a'' KString KNumber]"
    by auto
  from t1 b1 q1 n1 t2 b2 q2 n2 t3 b3 q3 n3 show ?thesis
    by blast
qed

section \<open>Properties of reading and validating\<close>

lemmas decode_defs = unmarshalConfig_def decodeCloud_def decodeNetwork_def decodeComponent_def
  decodeService_def listField_def stringField_def attributesField_def member_of_def andThen_def

lemmas validate_defs = Validate_def validateCloud_def validateComponent_def validateService_def
  entryPath_def requiredError_def defaultBindAddress_def

lemma string_of_nat_0: "string_of_nat 0 = ''0''"
  by (simp add: string_of_nat.simps [of 0])

text \<open>
  C5. The empty document is read and validated without error, for every registry and path.
  The configuration has the bind address \<^verbatim>\<open>localhost:8080\<close> with the flag
  \<^verbatim>\<open>BindAddressDefaultSet\<close> set, no cloud section, and no components or services.
\<close>

theorem empty_document_gets_defaults:
  "FromReader reg path doc_empty =
     Inr \<lparr>ConfigFilePath = path, cfg_Cloud = None, Components = [], Services = [],
          Network = \<lparr>BindAddress = ''localhost:8080'', BindAddressDefaultSet = True\<rparr>,
          cfg_Debug = False, FromCommand = False, cfg_AllowInsecureCreds = False\<rparr>"
  by (simp add: FromReader_def doc_empty_def decode_defs validate_defs)

text \<open>
  C6. A cloud section without an id fails with a message that contains \<^verbatim>\<open>"id" is required\<close>;
  a component without a name fails with a message that contains \<^verbatim>\<open>components.0\<close> and
  \<^verbatim>\<open>"name" is required\<close>.
\<close>

theorem missing_fields_are_located:
  "(\<exists>msg. FromReader reg path doc_cloud_without_id = Inl msg
       \<and> contains_substring msg ([dquote] @ ''id'' @ [dquote] @ '' is required''))
   \<and> (\<exists>msg. FromReader reg path doc_component_without_name = Inl msg
       \<and> contains_substring msg ''components.0''
       \<and> contains_substring msg ([dquote] @ ''name'' @ [dquote] @ '' is required''))"
proof -
  have 1: "FromReader reg path doc_cloud_without_id =
             Inl (''cloud: '' @ [dquote] @ ''id'' @ [dquote] @ '' is required'')"
    by (simp add: FromReader_def doc_cloud_without_id_def decode_defs validate_defs)
  have 2: "FromReader reg path doc_component_without_name =
             Inl (''components.0: '' @ [dquote] @ ''name'' @ [dquote] @ '' is required'')"
    by (simp add: FromReader_def doc_component_without_name_def decode_defs validate_defs
        string_of_nat_0)
  have 3: "contains_substring (''cloud: '' @ [dquote] @ ''id'' @ [dquote] @ '' is required'')
             ([dquote] @ ''id'' @ [dquote] @ '' is required'')"
    by (simp add: dquote_def)
  have 4: "contains_substring (''components.0: '' @ [dquote] @ ''name'' @ [dquote] @ '' is required'')
             ''components.0''"
    by simp
  have 5: "contains_substring (''components.0: '' @ [dquote] @ ''name'' @ [dquote] @ '' is required'')
             ([dquote] @ ''name'' @ [dquote] @ '' is required'')"
    by (simp add: dquote_def)
  from 1 2 3 4 5 show ?thesis by simp
qed


text \<open>That registry is what one registration makes of the empty registry.\<close>

lemma rejecting_registry_is_registered:
  "RegisterComponentAttributeMapConverter ''arm'' [] (\<lambda>attributes. Inl ''rejected'')
     (Some (\<lambda>v. None)) emptyRegistry = Inr rejecting_registry"
  by (simp add: RegisterComponentAttributeMapConverter_def emptyRegistry_def
      rejecting_registry_def)



end
